theory Spec2Isabelle
  imports Main
begin

section \<open>Python values\<close>

text \<open>
  The values the client puts into request bodies and returns from its helpers: None,
  booleans, integers, strings, lists and dictionaries with string keys. A dictionary is
  an association list in insertion order, as Python dictionaries keep it.
\<close>

datatype py =
    PNone
  | PBool bool
  | PInt int
  | PStr string
  | PList "py list"
  | PDict "(string \<times> py) list"

text \<open>Python's truth test, as used by \<^verbatim>\<open>if eu_vat_number:\<close> and its siblings.\<close>

fun truthy :: "py \<Rightarrow> bool" where
  "truthy PNone = False"
| "truthy (PBool b) = b"
| "truthy (PInt i) = (i \<noteq> 0)"
| "truthy (PStr s) = (s \<noteq> [])"
| "truthy (PList xs) = (xs \<noteq> [])"
| "truthy (PDict kvs) = (kvs \<noteq> [])"

text \<open>
  \<^verbatim>\<open>d[k] = v\<close>: an existing key keeps its position and gets the new value, a new
  key is appended.
\<close>

fun setitem :: "('k \<times> 'v) list \<Rightarrow> 'k \<Rightarrow> 'v \<Rightarrow> ('k \<times> 'v) list" where
  "setitem [] k v = [(k, v)]"
| "setitem ((k', v') # d) k v =
     (if k' = k then (k, v) # d else (k', v') # setitem d k v)"

section \<open>HTTP requests, responses and errors\<close>

datatype http_method = GET | POST | DELETE

record http_request =
  req_method :: http_method
  req_url :: string
  req_headers :: "(string \<times> string) list"
  req_params :: "(string \<times> py) list"
  req_body :: "py option"

text \<open>
  A response as the client and the library read it: the status code, the headers (of
  which only \<^verbatim>\<open>Location\<close> is ever looked at), the raw body, and what
  \<^verbatim>\<open>response.json()\<close> yields for that body (\<open>None\<close> when it does not decode).
\<close>

record http_response =
  status_code :: int
  resp_headers :: "(string \<times> string) list"
  body_text :: string
  json_body :: "py option"

text \<open>
  The exceptions that can leave a method: \<open>IndexError\<close> from \<^verbatim>\<open>endpoint[0]\<close> on an
  empty string, \<open>HTTPError\<close> from \<^verbatim>\<open>raise_for_status\<close> (it carries the response,
  hence status code and body), \<open>JSONDecodeError\<close> from \<^verbatim>\<open>.json()\<close>, and three
  that the library raises while sending: \<open>InvalidRequest\<close> when it refuses to prepare
  the request (a URL without scheme or host, a malformed header value),
  \<open>ConnectionError\<close> when a request gets no response at all, and \<open>TooManyRedirects\<close>.
\<close>

datatype error =
    IndexError
  | HTTPError http_response
  | JSONDecodeError
  | InvalidRequest
  | ConnectionError
  | TooManyRedirects

section \<open>The client object and the world it acts on\<close>

record session =
  headers :: "(string \<times> string) list"

record CascadeAPI =
  session :: session
  url :: string

text \<open>
  The process-wide logging configuration that \<^verbatim>\<open>__init__\<close> touches when
  \<^verbatim>\<open>debug\<close> is set.
\<close>

record globals =
  http_debuglevel :: int
  basic_config_done :: bool
  root_level :: int
  urllib3_level :: int
  urllib3_propagate :: bool

text \<open>
  The state a method can change: the client object itself and the requests the client
  has handed to its session so far, oldest first. What the library puts on the network
  for each of them, follow-ups of redirects included, is \<open>session_send\<close> below.
\<close>

record world =
  self :: CascadeAPI
  wire :: "http_request list"

text \<open>
  What lies below the session and is not decided by the client: whether the library
  accepts a request for sending, the response of the remote side to a request (none
  when the connection fails), and the URL that the library computes from the URL of a
  request and the \<^verbatim>\<open>Location\<close> of its response (\<^verbatim>\<open>urljoin\<close> and quoting).
\<close>

record transport =
  accepts :: "http_request \<Rightarrow> bool"
  respond :: "http_request \<Rightarrow> http_response option"
  urljoin :: "string \<Rightarrow> string \<Rightarrow> string"

section \<open>The parts of the requests library the client calls\<close>

text \<open>
  \<^verbatim>\<open>Response.raise_for_status()\<close> of the requests library, which is not part of this
  repository: it raises \<open>HTTPError\<close> for a client error (400 to 499) or a server error
  (500 to 599) and returns normally for every other status code.
\<close>

definition raise_for_status :: "http_response \<Rightarrow> error + unit" where
  "raise_for_status r =
     (if 400 \<le> status_code r \<and> status_code r < 600 then Inl (HTTPError r) else Inr ())"

text \<open>
  \<^verbatim>\<open>headers.pop(k, None)\<close>: the entries under the key are removed.
\<close>

fun pop_header :: "'k \<Rightarrow> ('k \<times> 'v) list \<Rightarrow> ('k \<times> 'v) list" where
  "pop_header k [] = []"
| "pop_header k ((k', v) # d) = (if k' = k then pop_header k d else (k', v) # pop_header k d)"

text \<open>
  \<^verbatim>\<open>get_redirect_target\<close>: a response is followed when its status is one of 301, 302,
  303, 307 and 308 and it has a non-empty \<^verbatim>\<open>Location\<close>.
\<close>

definition get_redirect_target :: "http_response \<Rightarrow> string option" where
  "get_redirect_target resp =
     (if status_code resp = 301 \<or> status_code resp = 302 \<or> status_code resp = 303
         \<or> status_code resp = 307 \<or> status_code resp = 308
      then (case map_of (resp_headers resp) ''Location'' of
              None \<Rightarrow> None
            | Some location \<Rightarrow> (if location = [] then None else Some location))
      else None)"

text \<open>
  \<^verbatim>\<open>rebuild_method\<close>: 303 and 302 turn every method into GET, 301 turns POST into GET.
\<close>

definition rebuild_method :: "http_method \<Rightarrow> http_response \<Rightarrow> http_method" where
  "rebuild_method method response =
     (let m1 = (if status_code response = 303 then GET else method);
          m2 = (if status_code response = 302 then GET else m1);
          m3 = (if status_code response = 301 \<and> m2 = POST then GET else m2)
      in m3)"

text \<open>
  One turn of the loop of \<^verbatim>\<open>resolve_redirects\<close>: the follow-up request is a copy of
  the request before it, with the new URL and method; unless the status is 307 or 308
  the headers Content-Length, Content-Type and Transfer-Encoding and the body are
  dropped; the Cookie header is dropped in any case. The query parameters are part of
  the URL followed. Cookies and Authorization, which the library may set again, are
  left out of the model.
\<close>

definition redirect_request ::
  "transport \<Rightarrow> http_request \<Rightarrow> http_response \<Rightarrow> string \<Rightarrow> http_request" where
  "redirect_request net req resp location =
     \<lparr>req_method = rebuild_method (req_method req) resp,
      req_url = urljoin net (req_url req) location,
      req_headers =
        pop_header ''Cookie''
          (if status_code resp = 307 \<or> status_code resp = 308 then req_headers req
           else pop_header ''Transfer-Encoding''
                  (pop_header ''Content-Type''
                     (pop_header ''Content-Length'' (req_headers req)))),
      req_params = [],
      req_body =
        (if status_code resp = 307 \<or> status_code resp = 308 then req_body req else None)\<rparr>"

definition DEFAULT_REDIRECT_LIMIT :: nat where
  "DEFAULT_REDIRECT_LIMIT = 30"

text \<open>
  \<^verbatim>\<open>resolve_redirects\<close>, with the number of redirects still allowed: the outcome, and
  the follow-up requests sent, in order. The first response that is not a redirect is the
  result.
\<close>

fun resolve_redirects ::
  "transport \<Rightarrow> nat \<Rightarrow> http_request \<Rightarrow> http_response
     \<Rightarrow> (error + http_response) \<times> http_request list" where
  "resolve_redirects net 0 req resp =
     (case get_redirect_target resp of
        None \<Rightarrow> (Inr resp, [])
      | Some location \<Rightarrow> (Inl TooManyRedirects, []))"
| "resolve_redirects net (Suc n) req resp =
     (case get_redirect_target resp of
        None \<Rightarrow> (Inr resp, [])
      | Some location \<Rightarrow>
          (let req' = redirect_request net req resp location in
           case respond net req' of
             None \<Rightarrow> (Inl ConnectionError, [req'])
           | Some resp' \<Rightarrow>
               (case resolve_redirects net n req' resp' of
                  (result, rest) \<Rightarrow> (result, req' # rest))))"

text \<open>
  \<^verbatim>\<open>Session.send\<close> with redirects allowed, the default of \<^verbatim>\<open>get\<close>, \<^verbatim>\<open>post\<close> and
  \<^verbatim>\<open>delete\<close>: the outcome, which is the last response, and every request sent for it,
  the first being the request itself. Headers that the library adds on its own
  (Content-Length, Cookie, Authorization) and its quoting of the URL are left out.
\<close>

definition session_send ::
  "transport \<Rightarrow> http_request \<Rightarrow> (error + http_response) \<times> http_request list" where
  "session_send net req =
     (if accepts net req
      then (case respond net req of
              None \<Rightarrow> (Inl ConnectionError, [req])
            | Some resp \<Rightarrow>
                (case resolve_redirects net DEFAULT_REDIRECT_LIMIT req resp of
                   (result, rest) \<Rightarrow> (result, req # rest)))
      else (Inl InvalidRequest, []))"

text \<open>
  \<^verbatim>\<open>session.get/post/delete\<close>: the request carries the session's headers; a
  \<^verbatim>\<open>json\<close> argument of None sends no body.
\<close>

definition session_request ::
  "transport \<Rightarrow> http_method \<Rightarrow> string \<Rightarrow> (string \<times> py) list \<Rightarrow> py \<Rightarrow> world
     \<Rightarrow> (error + http_response) \<times> world" where
  "session_request net m u params data w =
     (let rq = \<lparr>req_method = m, req_url = u,
                req_headers = headers (session (self w)),
                req_params = params,
                req_body = (if data = PNone then None else Some data)\<rparr>;
          w' = w\<lparr>wire := wire w @ [rq]\<rparr>
      in (fst (session_send net rq), w'))"

section \<open>Construction\<close>

text \<open>
  \<^verbatim>\<open>__init__(username, password, url, debug)\<close>. \<open>s0\<close> is the fresh session that
  \<^verbatim>\<open>requests.session()\<close> returns, \<open>g\<close> the logging configuration of the process. The
  default of \<^verbatim>\<open>url\<close> is \<^verbatim>\<open>https://api.cascadeportal.com\<close>, that of \<^verbatim>\<open>debug\<close> is False.
\<close>

definition CascadeAPI_init ::
  "string \<Rightarrow> string \<Rightarrow> string \<Rightarrow> bool \<Rightarrow> session \<Rightarrow> globals \<Rightarrow> CascadeAPI \<times> globals" where
  "CascadeAPI_init username password url' debug s0 g =
     (let g' = (if debug
                then g\<lparr>http_debuglevel := 1, basic_config_done := True, root_level := 10,
                       urllib3_level := 10, urllib3_propagate := True\<rparr>
                else g);
          s1 = s0\<lparr>headers := setitem (headers s0) ''X-Username'' username\<rparr>;
          s2 = s1\<lparr>headers := setitem (headers s1) ''X-Password'' password\<rparr>;
          s3 = s2\<lparr>headers := setitem (headers s2) ''Content-Type''
                                  ''application/json; charset=utf-8''\<rparr>
      in (\<lparr>session = s3, url = url'\<rparr>, g'))"

section \<open>The request helpers\<close>

text \<open>
  The first two statements of each helper:
  \<^verbatim>\<open>if not endpoint[0] == '/': endpoint = '/' + endpoint\<close>.
  Indexing an empty string raises \<open>IndexError\<close>.
\<close>

definition normalise_endpoint :: "string \<Rightarrow> error + string" where
  "normalise_endpoint endpoint =
     (case endpoint of
        [] \<Rightarrow> Inl IndexError
      | c # _ \<Rightarrow> Inr (if \<not> c = CHR ''/'' then ''/'' @ endpoint else endpoint))"

text \<open>The last two statements of each helper: raise on an error status, else return.\<close>

definition checked ::
  "(error + http_response) \<times> world \<Rightarrow> (error + http_response) \<times> world" where
  "checked rw =
     (case rw of
        (Inl e, w') \<Rightarrow> (Inl e, w')
      | (Inr response, w') \<Rightarrow>
          (case raise_for_status response of
             Inl e \<Rightarrow> (Inl e, w')
           | Inr _ \<Rightarrow> (Inr response, w')))"

definition sendget ::
  "transport \<Rightarrow> string \<Rightarrow> (string \<times> py) list \<Rightarrow> world \<Rightarrow> (error + http_response) \<times> world" where
  "sendget net endpoint params w =
     (case normalise_endpoint endpoint of
        Inl e \<Rightarrow> (Inl e, w)
      | Inr endpoint' \<Rightarrow>
          checked (session_request net GET (url (self w) @ endpoint') params PNone w))"

definition sendpost ::
  "transport \<Rightarrow> string \<Rightarrow> py \<Rightarrow> world \<Rightarrow> (error + http_response) \<times> world" where
  "sendpost net endpoint data w =
     (case normalise_endpoint endpoint of
        Inl e \<Rightarrow> (Inl e, w)
      | Inr endpoint' \<Rightarrow>
          checked (session_request net POST (url (self w) @ endpoint') [] data w))"

definition senddelete ::
  "transport \<Rightarrow> string \<Rightarrow> world \<Rightarrow> (error + http_response) \<times> world" where
  "senddelete net endpoint w =
     (case normalise_endpoint endpoint of
        Inl e \<Rightarrow> (Inl e, w)
      | Inr endpoint' \<Rightarrow>
          checked (session_request net DELETE (url (self w) @ endpoint') [] PNone w))"

section \<open>The public methods\<close>

text \<open>
  \<^verbatim>\<open>return helper(...).json()\<close>: decode the body of the response the helper returned.
\<close>

definition response_json ::
  "(error + http_response) \<times> world \<Rightarrow> (error + py) \<times> world" where
  "response_json rw =
     (case rw of
        (Inl e, w') \<Rightarrow> (Inl e, w')
      | (Inr response, w') \<Rightarrow>
          (case json_body response of
             None \<Rightarrow> (Inl JSONDecodeError, w')
           | Some j \<Rightarrow> (Inr j, w')))"

text \<open>A method that calls its helper and returns nothing: the result is None.\<close>

definition returns_none ::
  "(error + http_response) \<times> world \<Rightarrow> (error + py) \<times> world" where
  "returns_none rw =
     (case rw of
        (Inl e, w') \<Rightarrow> (Inl e, w')
      | (Inr response, w') \<Rightarrow> (Inr PNone, w'))"

definition get_all_customers :: "transport \<Rightarrow> world \<Rightarrow> (error + py) \<times> world" where
  "get_all_customers net w = response_json (sendget net ''/Customers'' [] w)"

definition get_customer :: "transport \<Rightarrow> string \<Rightarrow> world \<Rightarrow> (error + py) \<times> world" where
  "get_customer net primarydomain w =
     response_json (sendget net (''/Customers/'' @ primarydomain) [] w)"

definition get_customer_tenant :: "transport \<Rightarrow> string \<Rightarrow> world \<Rightarrow> (error + py) \<times> world" where
  "get_customer_tenant net primarydomain w =
     response_json
       (sendget net (''/customers/'' @ primarydomain @ ''/MicrosoftTenantAssociation'') [] w)"

definition get_customer_mca :: "transport \<Rightarrow> string \<Rightarrow> world \<Rightarrow> (error + py) \<times> world" where
  "get_customer_mca net primarydomain w =
     response_json (sendget net (''/customers/'' @ primarydomain @ ''/McaAcceptance'') [] w)"

definition get_customer_subscriptions ::
  "transport \<Rightarrow> string \<Rightarrow> world \<Rightarrow> (error + py) \<times> world" where
  "get_customer_subscriptions net primarydomain w =
     response_json (sendget net (''/customers/'' @ primarydomain @ ''/subscriptions'') [] w)"

definition get_customer_subscription ::
  "transport \<Rightarrow> string \<Rightarrow> string \<Rightarrow> world \<Rightarrow> (error + py) \<times> world" where
  "get_customer_subscription net primarydomain productcode w =
     response_json
       (sendget net (''/customers/'' @ primarydomain @ ''/subscriptions/'' @ productcode) [] w)"

definition get_cancellation_request ::
  "transport \<Rightarrow> string \<Rightarrow> string \<Rightarrow> world \<Rightarrow> (error + py) \<times> world" where
  "get_cancellation_request net primarydomain productcode w =
     response_json
       (sendget net
          (''/customers/'' @ primarydomain @ ''/subscriptions/'' @ productcode
             @ ''/cancellation-request'') [] w)"

text \<open>
  The dictionary \<^verbatim>\<open>create_customer\<close> builds before it posts: five keys always, five
  more each under its own truth test. The defaults are \<^verbatim>\<open>isactive=True\<close>, empty
  strings, \<^verbatim>\<open>{}\<close> and \<^verbatim>\<open>[]\<close>.
\<close>

definition create_customer_data ::
  "py \<Rightarrow> py \<Rightarrow> py \<Rightarrow> py \<Rightarrow> py \<Rightarrow> py \<Rightarrow> py \<Rightarrow> py \<Rightarrow> py \<Rightarrow> py \<Rightarrow> (string \<times> py) list" where
  "create_customer_data primarydomain customername reference head_office_address isactive
       eu_vat_number iso_country_code admin_password billing_address contacts =
     (let data0 = [(''PrimaryDomain'', primarydomain),
                   (''Name'', customername),
                   (''Reference'', reference),
                   (''IsActive'', isactive),
                   (''HeadOfficeAddress'', head_office_address)];
          data1 = (if truthy eu_vat_number
                   then setitem data0 ''EUVATNumber'' eu_vat_number else data0);
          data2 = (if truthy iso_country_code
                   then setitem data1 ''IsoCountryCode'' iso_country_code else data1);
          data3 = (if truthy admin_password
                   then setitem data2 ''AdministratorPassword'' admin_password else data2);
          data4 = (if truthy billing_address
                   then setitem data3 ''BillingAddress'' billing_address else data3);
          data5 = (if truthy contacts
                   then setitem data4 ''Contacts'' contacts else data4)
      in data5)"

definition create_customer ::
  "transport \<Rightarrow> py \<Rightarrow> py \<Rightarrow> py \<Rightarrow> py \<Rightarrow> py \<Rightarrow> py \<Rightarrow> py \<Rightarrow> py \<Rightarrow> py \<Rightarrow> py \<Rightarrow> world
     \<Rightarrow> (error + py) \<times> world" where
  "create_customer net primarydomain customername reference head_office_address isactive
       eu_vat_number iso_country_code admin_password billing_address contacts w =
     returns_none
       (sendpost net ''/customers''
          (PDict (create_customer_data primarydomain customername reference
                    head_office_address isactive eu_vat_number iso_country_code
                    admin_password billing_address contacts)) w)"

definition create_tenant ::
  "transport \<Rightarrow> string \<Rightarrow> string \<Rightarrow> world \<Rightarrow> (error + py) \<times> world" where
  "create_tenant net customer tenantid w =
     returns_none
       (sendpost net
          (''/customers/'' @ customer @ ''/MicrosoftTenant/'' @ tenantid @ ''.onmicrosoft.com'')
          PNone w)"

definition create_subscription ::
  "transport \<Rightarrow> string \<Rightarrow> py \<Rightarrow> world \<Rightarrow> (error + py) \<times> world" where
  "create_subscription net customer productinformation w =
     returns_none
       (sendpost net (''/customers/'' @ customer @ ''/subscriptions'') productinformation w)"

definition update_subscription ::
  "transport \<Rightarrow> string \<Rightarrow> string \<Rightarrow> py \<Rightarrow> world \<Rightarrow> (error + py) \<times> world" where
  "update_subscription net customer productcode newqty w =
     returns_none
       (sendpost net (''/customers/'' @ customer @ ''/subscriptions/'' @ productcode)
          (PDict [(''Quantity'', newqty)]) w)"

definition upgrade_subscription ::
  "transport \<Rightarrow> string \<Rightarrow> string \<Rightarrow> py \<Rightarrow> world \<Rightarrow> (error + py) \<times> world" where
  "upgrade_subscription net customer oldproductcode newproductcode w =
     returns_none
       (sendpost net (''/customers/'' @ customer @ ''/subscriptions/'' @ oldproductcode)
          (PDict [(''ProductCode'', newproductcode)]) w)"

definition submit_cancellation_request ::
  "transport \<Rightarrow> string \<Rightarrow> string \<Rightarrow> py \<Rightarrow> world \<Rightarrow> (error + py) \<times> world" where
  "submit_cancellation_request net customer productcode daterequested w =
     returns_none
       (sendpost net
          (''/customers/'' @ customer @ ''/subscriptions/'' @ productcode
             @ ''/cancellation-request'')
          (PDict [(''CancellationDateRequested'', daterequested)]) w)"

definition abort_cancellation_request ::
  "transport \<Rightarrow> string \<Rightarrow> string \<Rightarrow> world \<Rightarrow> (error + py) \<times> world" where
  "abort_cancellation_request net customer productcode w =
     returns_none
       (senddelete net
          (''/customers/'' @ customer @ ''/subscriptions/'' @ productcode
             @ ''/cancellation-request'') w)"

text \<open>The dictionary \<^verbatim>\<open>accept_mca\<close> posts: eight arguments and one constant.\<close>

definition accept_mca_data ::
  "py \<Rightarrow> py \<Rightarrow> py \<Rightarrow> py \<Rightarrow> py \<Rightarrow> py \<Rightarrow> py \<Rightarrow> py \<Rightarrow> (string \<times> py) list" where
  "accept_mca_data dateaccepted firstname surname phone email line1 postcode countryid =
     [(''DateAccepted'', dateaccepted),
      (''FirstName'', firstname),
      (''Surname'', surname),
      (''PhoneNumber'', phone),
      (''EmailAddress'', email),
      (''AddressLine1'', line1),
      (''Postcode'', postcode),
      (''CountryId'', countryid),
      (''AgreementUrl'', PStr ''https://aka.ms/customeragreement'')]"

definition accept_mca ::
  "transport \<Rightarrow> string \<Rightarrow> py \<Rightarrow> py \<Rightarrow> py \<Rightarrow> py \<Rightarrow> py \<Rightarrow> py \<Rightarrow> py \<Rightarrow> py \<Rightarrow> world
     \<Rightarrow> (error + py) \<times> world" where
  "accept_mca net customer dateaccepted firstname surname phone email line1 postcode
       countryid w =
     returns_none
       (sendpost net (''/customers/'' @ customer @ ''/McaAcceptance'')
          (PDict (accept_mca_data dateaccepted firstname surname phone email line1
                    postcode countryid)) w)"

text \<open>
  The two helpers that only build a dictionary. They take the client like every method
  and touch neither it nor the network. The defaults of \<^verbatim>\<open>line2\<close> and \<^verbatim>\<open>state\<close>
  are empty strings.
\<close>

definition make_address ::
  "py \<Rightarrow> py \<Rightarrow> py \<Rightarrow> py \<Rightarrow> py \<Rightarrow> world \<Rightarrow> (error + py) \<times> world" where
  "make_address line1 city postcode line2 state w =
     (let data0 = [(''Line1'', line1), (''City'', city), (''Postcode'', postcode)];
          data1 = (if truthy line2 then setitem data0 ''Line2'' line2 else data0);
          data2 = (if truthy state then setitem data1 ''State'' state else data1)
      in (Inr (PDict data2), w))"

definition make_contact ::
  "py \<Rightarrow> py \<Rightarrow> py \<Rightarrow> py \<Rightarrow> py \<Rightarrow> py \<Rightarrow> world \<Rightarrow> (error + py) \<times> world" where
  "make_contact firstname lastname email phone contacttype primary w =
     (Inr (PDict [(''FirstName'', firstname),
                  (''LastName'', lastname),
                  (''EmailAddress'', email),
                  (''PhoneNumber'', phone),
                  (''ContactType'', contacttype),
                  (''IsPrimaryContact'', primary)]), w)"

section \<open>Every public call\<close>

text \<open>One constructor for each public method with its arguments, and the dispatch.\<close>

datatype call =
    Get_all_customers
  | Get_customer string
  | Get_customer_tenant string
  | Get_customer_mca string
  | Get_customer_subscriptions string
  | Get_customer_subscription string string
  | Get_cancellation_request string string
  | Create_customer py py py py py py py py py py
  | Create_tenant string string
  | Create_subscription string py
  | Update_subscription string string py
  | Upgrade_subscription string string py
  | Submit_cancellation_request string string py
  | Abort_cancellation_request string string
  | Accept_mca string py py py py py py py py
  | Make_address py py py py py
  | Make_contact py py py py py py

fun run :: "transport \<Rightarrow> call \<Rightarrow> world \<Rightarrow> (error + py) \<times> world" where
  "run net Get_all_customers w = get_all_customers net w"
| "run net (Get_customer d) w = get_customer net d w"
| "run net (Get_customer_tenant d) w = get_customer_tenant net d w"
| "run net (Get_customer_mca d) w = get_customer_mca net d w"
| "run net (Get_customer_subscriptions d) w = get_customer_subscriptions net d w"
| "run net (Get_customer_subscription d p) w = get_customer_subscription net d p w"
| "run net (Get_cancellation_request d p) w = get_cancellation_request net d p w"
| "run net (Create_customer a1 a2 a3 a4 a5 a6 a7 a8 a9 a10) w =
     create_customer net a1 a2 a3 a4 a5 a6 a7 a8 a9 a10 w"
| "run net (Create_tenant c t) w = create_tenant net c t w"
| "run net (Create_subscription c i) w = create_subscription net c i w"
| "run net (Update_subscription c p q) w = update_subscription net c p q w"
| "run net (Upgrade_subscription c p q) w = upgrade_subscription net c p q w"
| "run net (Submit_cancellation_request c p d) w = submit_cancellation_request net c p d w"
| "run net (Abort_cancellation_request c p) w = abort_cancellation_request net c p w"
| "run net (Accept_mca c a1 a2 a3 a4 a5 a6 a7 a8) w =
     accept_mca net c a1 a2 a3 a4 a5 a6 a7 a8 w"
| "run net (Make_address a1 a2 a3 a4 a5) w = make_address a1 a2 a3 a4 a5 w"
| "run net (Make_contact a1 a2 a3 a4 a5 a6) w = make_contact a1 a2 a3 a4 a5 a6 w"

text \<open>
  The helper call a public method's body makes, with the endpoint string it builds;
  the two dictionary builders make none.
\<close>

datatype helper_call =
    Sendget string "(string \<times> py) list"
  | Sendpost string py
  | Senddelete string

fun endpoint_of :: "helper_call \<Rightarrow> string" where
  "endpoint_of (Sendget e ps) = e"
| "endpoint_of (Sendpost e d) = e"
| "endpoint_of (Senddelete e) = e"

fun exec_helper :: "transport \<Rightarrow> helper_call \<Rightarrow> world \<Rightarrow> (error + py) \<times> world" where
  "exec_helper net (Sendget e ps) w = response_json (sendget net e ps w)"
| "exec_helper net (Sendpost e d) w = returns_none (sendpost net e d w)"
| "exec_helper net (Senddelete e) w = returns_none (senddelete net e w)"

fun helper_of :: "call \<Rightarrow> helper_call option" where
  "helper_of Get_all_customers = Some (Sendget ''/Customers'' [])"
| "helper_of (Get_customer d) = Some (Sendget (''/Customers/'' @ d) [])"
| "helper_of (Get_customer_tenant d) =
     Some (Sendget (''/customers/'' @ d @ ''/MicrosoftTenantAssociation'') [])"
| "helper_of (Get_customer_mca d) = Some (Sendget (''/customers/'' @ d @ ''/McaAcceptance'') [])"
| "helper_of (Get_customer_subscriptions d) =
     Some (Sendget (''/customers/'' @ d @ ''/subscriptions'') [])"
| "helper_of (Get_customer_subscription d p) =
     Some (Sendget (''/customers/'' @ d @ ''/subscriptions/'' @ p) [])"
| "helper_of (Get_cancellation_request d p) =
     Some (Sendget (''/customers/'' @ d @ ''/subscriptions/'' @ p @ ''/cancellation-request'') [])"
| "helper_of (Create_customer a1 a2 a3 a4 a5 a6 a7 a8 a9 a10) =
     Some (Sendpost ''/customers''
             (PDict (create_customer_data a1 a2 a3 a4 a5 a6 a7 a8 a9 a10)))"
| "helper_of (Create_tenant c t) =
     Some (Sendpost (''/customers/'' @ c @ ''/MicrosoftTenant/'' @ t @ ''.onmicrosoft.com'') PNone)"
| "helper_of (Create_subscription c i) =
     Some (Sendpost (''/customers/'' @ c @ ''/subscriptions'') i)"
| "helper_of (Update_subscription c p q) =
     Some (Sendpost (''/customers/'' @ c @ ''/subscriptions/'' @ p) (PDict [(''Quantity'', q)]))"
| "helper_of (Upgrade_subscription c p q) =
     Some (Sendpost (''/customers/'' @ c @ ''/subscriptions/'' @ p) (PDict [(''ProductCode'', q)]))"
| "helper_of (Submit_cancellation_request c p d) =
     Some (Sendpost (''/customers/'' @ c @ ''/subscriptions/'' @ p @ ''/cancellation-request'')
             (PDict [(''CancellationDateRequested'', d)]))"
| "helper_of (Abort_cancellation_request c p) =
     Some (Senddelete (''/customers/'' @ c @ ''/subscriptions/'' @ p @ ''/cancellation-request''))"
| "helper_of (Accept_mca c a1 a2 a3 a4 a5 a6 a7 a8) =
     Some (Sendpost (''/customers/'' @ c @ ''/McaAcceptance'')
             (PDict (accept_mca_data a1 a2 a3 a4 a5 a6 a7 a8)))"
| "helper_of (Make_address a1 a2 a3 a4 a5) = None"
| "helper_of (Make_contact a1 a2 a3 a4 a5 a6) = None"

section \<open>Transports for examples\<close>

text \<open>The remote side that answers every request with the same response.\<close>

definition respond_with :: "http_response \<Rightarrow> transport" where
  "respond_with r =
     \<lparr>accepts = (\<lambda>rq. True), respond = (\<lambda>rq. Some r), urljoin = (\<lambda>base location. location)\<rparr>"


section \<open>Basic facts about the model\<close>

lemma map_of_setitem:
  "map_of (setitem d k v) k' = (if k' = k then Some v else map_of d k')"
  by (induction d) auto

lemma session_request_self [simp]:
  "self (snd (session_request net m u ps d w)) = self w"
  by (simp add: session_request_def Let_def split: option.splits)

lemma session_request_wire:
  "wire (snd (session_request net m u ps d w)) =
     wire w @ [\<lparr>req_method = m, req_url = u, req_headers = headers (session (self w)),
                req_params = ps, req_body = (if d = PNone then None else Some d)\<rparr>]"
  by (simp add: session_request_def Let_def split: option.splits)

lemma session_request_fst:
  "fst (session_request net m u ps d w) =
     fst (session_send net
            \<lparr>req_method = m, req_url = u, req_headers = headers (session (self w)),
              req_params = ps, req_body = (if d = PNone then None else Some d)\<rparr>)"
  by (simp add: session_request_def Let_def)


lemma resolve_redirects_final:
  "get_redirect_target resp = None \<Longrightarrow> resolve_redirects net n req resp = (Inr resp, [])"
  by (cases n) simp_all

lemma resolve_redirects_errors:
  "fst (resolve_redirects net n req resp) = Inl e
     \<Longrightarrow> e = ConnectionError \<or> e = TooManyRedirects"
proof (induction n arbitrary: req resp)
  case 0
  then show ?case by (simp split: option.splits)
next
  case (Suc n)
  show ?case
  proof (cases "get_redirect_target resp")
    case None
    with Suc.prems show ?thesis by simp
  next
    case (Some location)
    show ?thesis
    proof (cases "respond net (redirect_request net req resp location)")
      case None
      with Some Suc.prems show ?thesis by (simp add: Let_def)
    next
      case (Some resp')
      with \<open>get_redirect_target resp = Some location\<close> Suc.prems
      have "fst (resolve_redirects net n (redirect_request net req resp location) resp') = Inl e"
        by (simp add: Let_def split: prod.splits)
      then show ?thesis by (rule Suc.IH)
    qed
  qed
qed

lemma session_send_errors:
  "fst (session_send net req) = Inl e
     \<Longrightarrow> e = InvalidRequest \<or> e = ConnectionError \<or> e = TooManyRedirects"
proof (cases "accepts net req")
  case False
  assume "fst (session_send net req) = Inl e"
  with False show ?thesis by (simp add: session_send_def)
next
  case True
  assume a: "fst (session_send net req) = Inl e"
  show ?thesis
  proof (cases "respond net req")
    case None
    with True a show ?thesis by (simp add: session_send_def)
  next
    case (Some resp)
    with True a have "fst (resolve_redirects net DEFAULT_REDIRECT_LIMIT req resp) = Inl e"
      by (simp add: session_send_def split: prod.splits)
    from resolve_redirects_errors [OF this] show ?thesis by blast
  qed
qed





lemma snd_checked [simp]: "snd (checked rw) = snd rw"
  by (simp add: checked_def split: prod.splits sum.splits)

lemma snd_response_json [simp]: "snd (response_json rw) = snd rw"
  by (simp add: response_json_def split: prod.splits sum.splits option.splits)

lemma snd_returns_none [simp]: "snd (returns_none rw) = snd rw"
  by (simp add: returns_none_def split: prod.splits sum.splits)

lemma normalise_endpoint_Nil: "normalise_endpoint [] = Inl IndexError"
  by (simp add: normalise_endpoint_def)

lemma normalise_endpoint_Cons:
  "normalise_endpoint (c # cs) = Inr (if c = CHR ''/'' then c # cs else CHR ''/'' # c # cs)"
  by (simp add: normalise_endpoint_def)

lemma normalise_endpoint_slash: "normalise_endpoint (CHR ''/'' # cs) = Inr (CHR ''/'' # cs)"
  by (simp add: normalise_endpoint_def)

lemma run_helper_of: "helper_of c = Some h \<Longrightarrow> run net c w = exec_helper net h w"
  by (cases c)
     (auto simp: get_all_customers_def get_customer_def get_customer_tenant_def
        get_customer_mca_def get_customer_subscriptions_def get_customer_subscription_def
        get_cancellation_request_def create_customer_def create_tenant_def
        create_subscription_def update_subscription_def upgrade_subscription_def
        submit_cancellation_request_def abort_cancellation_request_def accept_mca_def)

lemma run_no_helper: "helper_of c = None \<Longrightarrow> snd (run net c w) = w"
  by (cases c) (auto simp: make_address_def make_contact_def Let_def)

lemma helper_of_endpoint:
  "helper_of c = Some h \<Longrightarrow> \<exists>cs. endpoint_of h = CHR ''/'' # cs"
  by (cases c) auto

lemma normalise_endpoint_idem:
  "normalise_endpoint e = Inr e' \<Longrightarrow> normalise_endpoint e' = Inr e'"
  by (cases e) (auto simp: normalise_endpoint_def split: if_splits)

lemma fst_checked:
  "fst (checked rw) =
     (case fst rw of Inl e \<Rightarrow> Inl e
      | Inr r \<Rightarrow> (if 400 \<le> status_code r \<and> status_code r < 600 then Inl (HTTPError r) else Inr r))"
  by (simp add: checked_def raise_for_status_def split: prod.splits sum.splits)

lemma sendget_Cons:
  "sendget net (c # cs) ps w =
     checked (session_request net GET
                (url (self w) @ (if c = CHR ''/'' then c # cs else CHR ''/'' # c # cs)) ps PNone w)"
  by (simp add: sendget_def normalise_endpoint_Cons)

lemma sendpost_Cons:
  "sendpost net (c # cs) d w =
     checked (session_request net POST
                (url (self w) @ (if c = CHR ''/'' then c # cs else CHR ''/'' # c # cs)) [] d w)"
  by (simp add: sendpost_def normalise_endpoint_Cons)

lemma senddelete_Cons:
  "senddelete net (c # cs) w =
     checked (session_request net DELETE
                (url (self w) @ (if c = CHR ''/'' then c # cs else CHR ''/'' # c # cs)) [] PNone w)"
  by (simp add: senddelete_def normalise_endpoint_Cons)

lemma checked_answer:
  "fst (session_send net (last (wire (snd (session_request net m u ps d w))))) = Inr r
     \<Longrightarrow> fst (checked (session_request net m u ps d w)) =
           (if 400 \<le> status_code r \<and> status_code r < 600 then Inl (HTTPError r) else Inr r)"
  by (simp add: fst_checked session_request_fst session_request_wire)

lemma checked_raises:
  assumes "fst (checked (session_request net m u ps d w)) = Inl (HTTPError r)"
  shows "400 \<le> status_code r \<and> status_code r < 600"
proof (cases "fst (session_request net m u ps d w)")
  case (Inl e)
  with assms have "e = HTTPError r" by (simp add: fst_checked)
  moreover from Inl have "e = InvalidRequest \<or> e = ConnectionError \<or> e = TooManyRedirects"
    by (simp add: session_request_fst session_send_errors)
  ultimately show ?thesis by auto
next
  case (Inr r')
  with assms show ?thesis by (auto simp: fst_checked split: if_splits)
qed


lemma exec_helper_self: "self (snd (exec_helper net h w)) = self w"
  by (cases h)
     (simp_all add: sendget_def sendpost_def senddelete_def split: sum.splits)

lemma init_debug_irrelevant:
  "fst (CascadeAPI_init username password url' d1 s0 g1)
     = fst (CascadeAPI_init username password url' d2 s0 g2)"
  by (simp add: CascadeAPI_init_def Let_def)


lemma fst_response_json_not_index:
  "fst rw \<noteq> Inl IndexError \<Longrightarrow> fst (response_json rw) \<noteq> Inl IndexError"
  by (cases rw) (auto simp: response_json_def split: sum.splits option.splits)

lemma fst_returns_none_not_index:
  "fst rw \<noteq> Inl IndexError \<Longrightarrow> fst (returns_none rw) \<noteq> Inl IndexError"
  by (cases rw) (auto simp: returns_none_def split: sum.splits)

lemma fst_checked_request_not_index:
  "fst (checked (session_request net m u ps d w)) \<noteq> Inl IndexError"
proof (cases "fst (session_request net m u ps d w)")
  case (Inl e)
  then have "e = InvalidRequest \<or> e = ConnectionError \<or> e = TooManyRedirects"
    by (simp add: session_request_fst session_send_errors)
  with Inl show ?thesis by (auto simp: fst_checked)
next
  case (Inr r)
  then show ?thesis by (simp add: fst_checked)
qed

section \<open>The dictionary builders\<close>

text \<open>
  C8. For all inputs, \<^verbatim>\<open>make_contact(firstname, lastname, email, phone, contacttype,
  primary)\<close> returns exactly the six-key dictionary FirstName, LastName, EmailAddress,
  PhoneNumber, ContactType, IsPrimaryContact holding the six arguments, and performs no
  network activity: whatever the transport, the world (client and wire) is left as it
  was.
\<close>

theorem make_contact_dict:
  "run net (Make_contact firstname lastname email phone contacttype primary) w =
     (Inr (PDict [(''FirstName'', firstname), (''LastName'', lastname),
                  (''EmailAddress'', email), (''PhoneNumber'', phone),
                  (''ContactType'', contacttype), (''IsPrimaryContact'', primary)]), w)"
  by (simp add: make_contact_def)

text \<open>
  C7. \<^verbatim>\<open>make_address(line1, city, postcode)\<close> with \<^verbatim>\<open>line2\<close> and \<^verbatim>\<open>state\<close> left
  empty returns exactly the dictionary with the keys Line1, City and Postcode; in
  general the result is that dictionary followed by the key Line2 with the value of
  \<^verbatim>\<open>line2\<close> when that is non-empty, and by the key State with the value of
  \<^verbatim>\<open>state\<close> when that is non-empty, and by nothing else.
\<close>

theorem make_address_dict:
  "make_address line1 city postcode (PStr []) (PStr []) w =
     (Inr (PDict [(''Line1'', line1), (''City'', city), (''Postcode'', postcode)]), w)
   \<and> make_address line1 city postcode line2 state w =
     (Inr (PDict ([(''Line1'', line1), (''City'', city), (''Postcode'', postcode)]
                  @ (if truthy line2 then [(''Line2'', line2)] else [])
                  @ (if truthy state then [(''State'', state)] else []))), w)"
  by (simp add: make_address_def Let_def)

section \<open>Request bodies\<close>

text \<open>
  C5. For every call to \<^verbatim>\<open>accept_mca\<close>, whatever its nine arguments, exactly one
  request is handed to the session, a POST to
  \<^verbatim>\<open>/customers/{customer}/McaAcceptance\<close>, whose body has
  AgreementUrl equal to the constant \<^verbatim>\<open>https://aka.ms/customeragreement\<close> and
  DateAccepted, FirstName, Surname, PhoneNumber, EmailAddress, AddressLine1, Postcode
  and CountryId equal to the corresponding arguments.
\<close>

theorem accept_mca_body:
  "wire (snd (accept_mca net customer dateaccepted firstname surname phone email line1
                postcode countryid w)) =
     wire w @
     [\<lparr>req_method = POST,
       req_url = url (self w) @ ''/customers/'' @ customer @ ''/McaAcceptance'',
       req_headers = headers (session (self w)),
       req_params = [],
       req_body = Some (PDict [(''DateAccepted'', dateaccepted),
                               (''FirstName'', firstname),
                               (''Surname'', surname),
                               (''PhoneNumber'', phone),
                               (''EmailAddress'', email),
                               (''AddressLine1'', line1),
                               (''Postcode'', postcode),
                               (''CountryId'', countryid),
                               (''AgreementUrl'', PStr ''https://aka.ms/customeragreement'')])\<rparr>]"
  by (simp add: accept_mca_def accept_mca_data_def sendpost_def normalise_endpoint_slash
        session_request_wire)

section \<open>The client configuration\<close>

text \<open>
  C9. The configuration set at construction, that is the base URL and the session with
  its headers, is the same after every public operation as before it, whether the
  operation returns or raises.
\<close>

theorem configuration_unchanged: "self (snd (run net c w)) = self w"
proof (cases "helper_of c")
  case None
  then show ?thesis by (simp add: run_no_helper)
next
  case (Some h)
  then show ?thesis by (simp add: run_helper_of exec_helper_self)
qed

text \<open>
  C6. Two clients constructed with the same username, password and URL from the same
  fresh session, one with \<^verbatim>\<open>debug\<close> set and one without, behave alike on every public
  call: against the same transport and from the same wire they return the same result
  and leave the same wire, hence hand the session requests with the same method, URL,
  headers, parameters and body, for which the same requests are sent.
\<close>

theorem debug_does_not_change_requests:
  "run net c \<lparr>self = fst (CascadeAPI_init username password url' True s0 g), wire = ws\<rparr>
     = run net c \<lparr>self = fst (CascadeAPI_init username password url' False s0 g), wire = ws\<rparr>"
  using init_debug_irrelevant [of username password url' True s0 g False g] by simp

section \<open>The request helpers: the endpoint\<close>

text \<open>
  C2, as stated, fails at the empty endpoint. The empty string does not start with a
  slash, yet no helper builds the path \<^verbatim>\<open>/\<close> for it: each raises \<open>IndexError\<close> and
  hands nothing to the session.
\<close>

theorem helpers_empty_endpoint:
  "sendget (respond_with \<lparr>status_code = 200, resp_headers = [], body_text = ''[]'', json_body = Some (PList [])\<rparr>) [] []
       \<lparr>self = \<lparr>session = \<lparr>headers = []\<rparr>, url = ''https://api.cascadeportal.com''\<rparr>,
            wire = []\<rparr>
     = (Inl IndexError,
        \<lparr>self = \<lparr>session = \<lparr>headers = []\<rparr>, url = ''https://api.cascadeportal.com''\<rparr>,
            wire = []\<rparr>)
   \<and> sendpost (respond_with \<lparr>status_code = 200, resp_headers = [], body_text = ''[]'', json_body = Some (PList [])\<rparr>) [] PNone
       \<lparr>self = \<lparr>session = \<lparr>headers = []\<rparr>, url = ''https://api.cascadeportal.com''\<rparr>,
            wire = []\<rparr>
     = (Inl IndexError,
        \<lparr>self = \<lparr>session = \<lparr>headers = []\<rparr>, url = ''https://api.cascadeportal.com''\<rparr>,
            wire = []\<rparr>)
   \<and> senddelete (respond_with \<lparr>status_code = 200, resp_headers = [], body_text = ''[]'', json_body = Some (PList [])\<rparr>) []
       \<lparr>self = \<lparr>session = \<lparr>headers = []\<rparr>, url = ''https://api.cascadeportal.com''\<rparr>,
            wire = []\<rparr>
     = (Inl IndexError,
        \<lparr>self = \<lparr>session = \<lparr>headers = []\<rparr>, url = ''https://api.cascadeportal.com''\<rparr>,
            wire = []\<rparr>)"
  by (simp add: sendget_def sendpost_def senddelete_def normalise_endpoint_Nil)

text \<open>
  C2, for the endpoints that have a first character. For every non-empty endpoint the
  path is the endpoint itself when it starts with a slash and the endpoint with one
  slash put in front otherwise; normalising that path again changes nothing; and each
  of the three helpers hands the session exactly one request, for the base URL followed
  by that path.
\<close>

theorem endpoint_normalised:
  assumes "endpoint \<noteq> []"
  shows "normalise_endpoint endpoint
           = Inr (if hd endpoint = CHR ''/'' then endpoint else CHR ''/'' # endpoint)
       \<and> normalise_endpoint (if hd endpoint = CHR ''/'' then endpoint else CHR ''/'' # endpoint)
           = Inr (if hd endpoint = CHR ''/'' then endpoint else CHR ''/'' # endpoint)
       \<and> wire (snd (sendget net endpoint params w)) =
           wire w @
           [\<lparr>req_method = GET,
             req_url = url (self w)
                       @ (if hd endpoint = CHR ''/'' then endpoint else CHR ''/'' # endpoint),
             req_headers = headers (session (self w)), req_params = params,
             req_body = None\<rparr>]
       \<and> wire (snd (sendpost net endpoint data w)) =
           wire w @
           [\<lparr>req_method = POST,
             req_url = url (self w)
                       @ (if hd endpoint = CHR ''/'' then endpoint else CHR ''/'' # endpoint),
             req_headers = headers (session (self w)), req_params = [],
             req_body = (if data = PNone then None else Some data)\<rparr>]
       \<and> wire (snd (senddelete net endpoint w)) =
           wire w @
           [\<lparr>req_method = DELETE,
             req_url = url (self w)
                       @ (if hd endpoint = CHR ''/'' then endpoint else CHR ''/'' # endpoint),
             req_headers = headers (session (self w)), req_params = [],
             req_body = None\<rparr>]"
proof -
  from assms obtain c cs where e: "endpoint = c # cs"
    by (cases endpoint) auto
  show ?thesis
    unfolding e
    by (simp add: normalise_endpoint_Cons sendget_Cons sendpost_Cons senddelete_Cons
          session_request_wire)
qed

text \<open>The endpoint \<^verbatim>\<open>Customers\<close>, without a slash, on the three helpers.\<close>

theorem endpoint_normalised_witness:
  "normalise_endpoint ''Customers'' = Inr ''/Customers''
   \<and> normalise_endpoint ''/Customers'' = Inr ''/Customers''
   \<and> wire (snd (sendget (respond_with \<lparr>status_code = 200, resp_headers = [], body_text = ''[]'', json_body = Some (PList [])\<rparr>) ''Customers'' []
          \<lparr>self = \<lparr>session = \<lparr>headers = []\<rparr>, url = ''https://api.cascadeportal.com''\<rparr>,
            wire = []\<rparr>)) =
       [\<lparr>req_method = GET, req_url = ''https://api.cascadeportal.com/Customers'',
         req_headers = [], req_params = [], req_body = None\<rparr>]
   \<and> wire (snd (sendpost (respond_with \<lparr>status_code = 200, resp_headers = [], body_text = ''[]'', json_body = Some (PList [])\<rparr>) ''Customers'' (PDict [])
          \<lparr>self = \<lparr>session = \<lparr>headers = []\<rparr>, url = ''https://api.cascadeportal.com''\<rparr>,
            wire = []\<rparr>)) =
       [\<lparr>req_method = POST, req_url = ''https://api.cascadeportal.com/Customers'',
         req_headers = [], req_params = [], req_body = Some (PDict [])\<rparr>]
   \<and> wire (snd (senddelete (respond_with \<lparr>status_code = 200, resp_headers = [], body_text = ''[]'', json_body = Some (PList [])\<rparr>) ''Customers''
          \<lparr>self = \<lparr>session = \<lparr>headers = []\<rparr>, url = ''https://api.cascadeportal.com''\<rparr>,
            wire = []\<rparr>)) =
       [\<lparr>req_method = DELETE, req_url = ''https://api.cascadeportal.com/Customers'',
         req_headers = [], req_params = [], req_body = None\<rparr>]"
proof -
  have h: "''Customers'' \<noteq> []"
    by simp
  from endpoint_normalised
         [OF h,
          where net = "respond_with \<lparr>status_code = 200, resp_headers = [], body_text = ''[]'', json_body = Some (PList [])\<rparr>"
            and params = "[]" and data = "PDict []"
            and w = "\<lparr>self = \<lparr>session = \<lparr>headers = []\<rparr>, url = ''https://api.cascadeportal.com''\<rparr>,
            wire = []\<rparr>"]
  show ?thesis
    by simp
qed

section \<open>The request helpers: the status code\<close>

text \<open>
  C1, as the code has it. Let a helper be given a non-empty endpoint and let \<open>r\<close> be
  the response that the session returns for the helper's request, the last one when
  redirects were followed. If the status code of \<open>r\<close> is from 400 to 599 the helper
  raises \<open>HTTPError\<close> carrying \<open>r\<close>, hence its status code and raw body; otherwise,
  for every 2xx code in particular, it raises nothing and returns \<open>r\<close>. And whenever
  a helper raises \<open>HTTPError\<close>, the status code carried is from 400 to 599. This holds
  alike for GET, POST and DELETE; a 404 answer raises on each of the three paths.
\<close>

theorem helpers_raise_on_error_status:
  "(endpoint \<noteq> []
      \<and> fst (session_send net (last (wire (snd (sendget net endpoint params w))))) = Inr r
      \<longrightarrow> fst (sendget net endpoint params w)
            = (if 400 \<le> status_code r \<and> status_code r < 600 then Inl (HTTPError r) else Inr r))
   \<and> (endpoint \<noteq> []
      \<and> fst (session_send net (last (wire (snd (sendpost net endpoint data w))))) = Inr r
      \<longrightarrow> fst (sendpost net endpoint data w)
            = (if 400 \<le> status_code r \<and> status_code r < 600 then Inl (HTTPError r) else Inr r))
   \<and> (endpoint \<noteq> []
      \<and> fst (session_send net (last (wire (snd (senddelete net endpoint w))))) = Inr r
      \<longrightarrow> fst (senddelete net endpoint w)
            = (if 400 \<le> status_code r \<and> status_code r < 600 then Inl (HTTPError r) else Inr r))
   \<and> (fst (sendget net endpoint params w) = Inl (HTTPError r)
      \<longrightarrow> 400 \<le> status_code r \<and> status_code r < 600)
   \<and> (fst (sendpost net endpoint data w) = Inl (HTTPError r)
      \<longrightarrow> 400 \<le> status_code r \<and> status_code r < 600)
   \<and> (fst (senddelete net endpoint w) = Inl (HTTPError r)
      \<longrightarrow> 400 \<le> status_code r \<and> status_code r < 600)"
proof (cases endpoint)
  case Nil
  then show ?thesis
    by (simp add: sendget_def sendpost_def senddelete_def normalise_endpoint_Nil)
next
  case (Cons c cs)
  show ?thesis
    unfolding Cons sendget_Cons sendpost_Cons senddelete_Cons snd_checked
    using checked_answer checked_raises by blast
qed

text \<open>The three helpers at a 404 answer with the body \<^verbatim>\<open>Not Found\<close>.\<close>

theorem helpers_raise_on_error_status_witness:
  "fst (sendget (respond_with \<lparr>status_code = 404, resp_headers = [], body_text = ''Not Found'', json_body = None\<rparr>)
          ''/Customers'' []
          \<lparr>self = \<lparr>session = \<lparr>headers = []\<rparr>, url = ''https://api.cascadeportal.com''\<rparr>,
            wire = []\<rparr>)
     = Inl (HTTPError \<lparr>status_code = 404, resp_headers = [], body_text = ''Not Found'', json_body = None\<rparr>)
   \<and> fst (sendpost (respond_with \<lparr>status_code = 404, resp_headers = [], body_text = ''Not Found'', json_body = None\<rparr>)
          ''/Customers'' PNone
          \<lparr>self = \<lparr>session = \<lparr>headers = []\<rparr>, url = ''https://api.cascadeportal.com''\<rparr>,
            wire = []\<rparr>)
     = Inl (HTTPError \<lparr>status_code = 404, resp_headers = [], body_text = ''Not Found'', json_body = None\<rparr>)
   \<and> fst (senddelete (respond_with \<lparr>status_code = 404, resp_headers = [], body_text = ''Not Found'', json_body = None\<rparr>)
          ''/Customers''
          \<lparr>self = \<lparr>session = \<lparr>headers = []\<rparr>, url = ''https://api.cascadeportal.com''\<rparr>,
            wire = []\<rparr>)
     = Inl (HTTPError \<lparr>status_code = 404, resp_headers = [], body_text = ''Not Found'', json_body = None\<rparr>)
   \<and> 400 \<le> status_code \<lparr>status_code = 404, resp_headers = [], body_text = ''Not Found'', json_body = None\<rparr>
   \<and> status_code \<lparr>status_code = 404, resp_headers = [], body_text = ''Not Found'', json_body = None\<rparr> < 600"
proof -
  have s: "fst (session_send (respond_with \<lparr>status_code = 404, resp_headers = [], body_text = ''Not Found'', json_body = None\<rparr>) rq) = Inr \<lparr>status_code = 404, resp_headers = [], body_text = ''Not Found'', json_body = None\<rparr>" for rq
    by (simp add: session_send_def respond_with_def resolve_redirects_final
          get_redirect_target_def)
  from helpers_raise_on_error_status
    [where endpoint = "''/Customers''"
       and net = "respond_with \<lparr>status_code = 404, resp_headers = [], body_text = ''Not Found'', json_body = None\<rparr>"
       and params = "[]" and data = PNone
       and r = "\<lparr>status_code = 404, resp_headers = [], body_text = ''Not Found'', json_body = None\<rparr>"
       and w = "\<lparr>self = \<lparr>session = \<lparr>headers = []\<rparr>, url = ''https://api.cascadeportal.com''\<rparr>,
            wire = []\<rparr>"]
  show ?thesis
    by (simp add: s)
qed

text \<open>
  C1, as stated, fails at status 304: the code is not a 2xx code, and each helper
  returns the response instead of raising.
\<close>

theorem helpers_304_no_error:
  "\<not> (200 \<le> status_code \<lparr>status_code = 304, resp_headers = [], body_text = [], json_body = None\<rparr>
      \<and> status_code \<lparr>status_code = 304, resp_headers = [], body_text = [], json_body = None\<rparr> < 300)
   \<and> fst (sendget (respond_with \<lparr>status_code = 304, resp_headers = [], body_text = [], json_body = None\<rparr>)
          ''/Customers'' []
          \<lparr>self = \<lparr>session = \<lparr>headers = []\<rparr>, url = ''https://api.cascadeportal.com''\<rparr>,
            wire = []\<rparr>)
     = Inr \<lparr>status_code = 304, resp_headers = [], body_text = [], json_body = None\<rparr>
   \<and> fst (sendpost (respond_with \<lparr>status_code = 304, resp_headers = [], body_text = [], json_body = None\<rparr>)
          ''/Customers'' PNone
          \<lparr>self = \<lparr>session = \<lparr>headers = []\<rparr>, url = ''https://api.cascadeportal.com''\<rparr>,
            wire = []\<rparr>)
     = Inr \<lparr>status_code = 304, resp_headers = [], body_text = [], json_body = None\<rparr>
   \<and> fst (senddelete (respond_with \<lparr>status_code = 304, resp_headers = [], body_text = [], json_body = None\<rparr>)
          ''/Customers''
          \<lparr>self = \<lparr>session = \<lparr>headers = []\<rparr>, url = ''https://api.cascadeportal.com''\<rparr>,
            wire = []\<rparr>)
     = Inr \<lparr>status_code = 304, resp_headers = [], body_text = [], json_body = None\<rparr>"
  by (simp add: sendget_Cons sendpost_Cons senddelete_Cons fst_checked session_request_fst
        session_send_def respond_with_def resolve_redirects_final get_redirect_target_def)

section \<open>The body of create_customer\<close>

lemma create_customer_data_closed:
  "create_customer_data primarydomain customername reference head_office_address isactive
       eu_vat_number iso_country_code admin_password billing_address contacts =
     [(''PrimaryDomain'', primarydomain), (''Name'', customername),
      (''Reference'', reference), (''IsActive'', isactive),
      (''HeadOfficeAddress'', head_office_address)]
     @ (if truthy eu_vat_number then [(''EUVATNumber'', eu_vat_number)] else [])
     @ (if truthy iso_country_code then [(''IsoCountryCode'', iso_country_code)] else [])
     @ (if truthy admin_password then [(''AdministratorPassword'', admin_password)] else [])
     @ (if truthy billing_address then [(''BillingAddress'', billing_address)] else [])
     @ (if truthy contacts then [(''Contacts'', contacts)] else [])"
  by (simp add: create_customer_data_def Let_def)

lemma create_customer_wire:
  "wire (snd (create_customer net primarydomain customername reference
                head_office_address isactive eu_vat_number iso_country_code admin_password
                billing_address contacts w)) =
     wire w @
     [\<lparr>req_method = POST, req_url = url (self w) @ ''/customers'',
       req_headers = headers (session (self w)), req_params = [],
       req_body = Some (PDict (create_customer_data primarydomain customername reference
                                 head_office_address isactive eu_vat_number iso_country_code
                                 admin_password billing_address contacts))\<rparr>]"
  by (simp add: create_customer_def sendpost_Cons session_request_wire)

lemma map_of_if_setitem:
  "map_of (if b then setitem d k v else d) k' =
     (if b \<and> k' = k then Some v else map_of d k')"
  by (simp add: map_of_setitem)

lemma create_customer_data_optional:
  "map_of (create_customer_data primarydomain customername reference head_office_address
             isactive eu_vat_number iso_country_code admin_password billing_address contacts)
          ''EUVATNumber'' = (if truthy eu_vat_number then Some eu_vat_number else None)"
  "map_of (create_customer_data primarydomain customername reference head_office_address
             isactive eu_vat_number iso_country_code admin_password billing_address contacts)
          ''IsoCountryCode'' = (if truthy iso_country_code then Some iso_country_code else None)"
  "map_of (create_customer_data primarydomain customername reference head_office_address
             isactive eu_vat_number iso_country_code admin_password billing_address contacts)
          ''AdministratorPassword'' = (if truthy admin_password then Some admin_password else None)"
  "map_of (create_customer_data primarydomain customername reference head_office_address
             isactive eu_vat_number iso_country_code admin_password billing_address contacts)
          ''BillingAddress'' = (if truthy billing_address then Some billing_address else None)"
  "map_of (create_customer_data primarydomain customername reference head_office_address
             isactive eu_vat_number iso_country_code admin_password billing_address contacts)
          ''Contacts'' = (if truthy contacts then Some contacts else None)"
  unfolding create_customer_data_def Let_def map_of_if_setitem
  by simp_all

lemma create_customer_data_required:
  "map_of (create_customer_data primarydomain customername reference head_office_address
             isactive eu_vat_number iso_country_code admin_password billing_address contacts)
          ''PrimaryDomain'' = Some primarydomain"
  "map_of (create_customer_data primarydomain customername reference head_office_address
             isactive eu_vat_number iso_country_code admin_password billing_address contacts)
          ''Name'' = Some customername"
  "map_of (create_customer_data primarydomain customername reference head_office_address
             isactive eu_vat_number iso_country_code admin_password billing_address contacts)
          ''Reference'' = Some reference"
  "map_of (create_customer_data primarydomain customername reference head_office_address
             isactive eu_vat_number iso_country_code admin_password billing_address contacts)
          ''IsActive'' = Some isactive"
  "map_of (create_customer_data primarydomain customername reference head_office_address
             isactive eu_vat_number iso_country_code admin_password billing_address contacts)
          ''HeadOfficeAddress'' = Some head_office_address"
  unfolding create_customer_data_def Let_def map_of_if_setitem
  by simp_all

text \<open>
  C4. \<^verbatim>\<open>create_customer\<close> hands exactly one request to the session, a POST to
  \<^verbatim>\<open>/customers\<close> whose body is the dictionary it built. That dictionary holds PrimaryDomain, Name, Reference,
  IsActive and HeadOfficeAddress always, each with its argument, and holds each of
  EUVATNumber, IsoCountryCode, AdministratorPassword, BillingAddress and Contacts with
  its argument when that argument is truthy and not at all when it is falsy.
\<close>

theorem create_customer_body:
  "wire (snd (create_customer net primarydomain customername reference head_office_address
                isactive eu_vat_number iso_country_code admin_password billing_address
                contacts w)) =
     wire w @
     [\<lparr>req_method = POST, req_url = url (self w) @ ''/customers'',
       req_headers = headers (session (self w)), req_params = [],
       req_body = Some (PDict (create_customer_data primarydomain customername reference
                                 head_office_address isactive eu_vat_number iso_country_code
                                 admin_password billing_address contacts))\<rparr>]
   \<and> create_customer_data primarydomain customername reference head_office_address isactive
         eu_vat_number iso_country_code admin_password billing_address contacts =
       [(''PrimaryDomain'', primarydomain), (''Name'', customername),
        (''Reference'', reference), (''IsActive'', isactive),
        (''HeadOfficeAddress'', head_office_address)]
       @ (if truthy eu_vat_number then [(''EUVATNumber'', eu_vat_number)] else [])
       @ (if truthy iso_country_code then [(''IsoCountryCode'', iso_country_code)] else [])
       @ (if truthy admin_password then [(''AdministratorPassword'', admin_password)] else [])
       @ (if truthy billing_address then [(''BillingAddress'', billing_address)] else [])
       @ (if truthy contacts then [(''Contacts'', contacts)] else [])
   \<and> (let d = create_customer_data primarydomain customername reference
                head_office_address isactive eu_vat_number iso_country_code
                admin_password billing_address contacts
      in map_of d ''EUVATNumber'' = (if truthy eu_vat_number then Some eu_vat_number else None)
       \<and> map_of d ''IsoCountryCode''
           = (if truthy iso_country_code then Some iso_country_code else None)
       \<and> map_of d ''AdministratorPassword''
           = (if truthy admin_password then Some admin_password else None)
       \<and> map_of d ''BillingAddress''
           = (if truthy billing_address then Some billing_address else None)
       \<and> map_of d ''Contacts'' = (if truthy contacts then Some contacts else None)
       \<and> map_of d ''PrimaryDomain'' = Some primarydomain
       \<and> map_of d ''Name'' = Some customername
       \<and> map_of d ''Reference'' = Some reference
       \<and> map_of d ''IsActive'' = Some isactive
       \<and> map_of d ''HeadOfficeAddress'' = Some head_office_address)"
  unfolding Let_def
  by (intro conjI create_customer_wire create_customer_data_closed
        create_customer_data_optional create_customer_data_required)

section \<open>Headers and endpoints of the public methods\<close>




text \<open>
  C10. The endpoint that a public method passes to its helper is never empty and
  begins with a slash; so the helper's normalisation returns it as it is, the method
  is the helper run on that very endpoint, and \<open>IndexError\<close> never leaves a public
  method.
\<close>

theorem public_endpoints_start_with_slash:
  assumes "helper_of c = Some h"
  shows "endpoint_of h \<noteq> [] \<and> hd (endpoint_of h) = CHR ''/''
       \<and> normalise_endpoint (endpoint_of h) = Inr (endpoint_of h)
       \<and> run net c w = exec_helper net h w
       \<and> fst (run net c w) \<noteq> Inl IndexError"
proof -
  obtain cs where e: "endpoint_of h = CHR ''/'' # cs"
    using helper_of_endpoint [OF assms] by blast
  have r: "run net c w = exec_helper net h w"
    by (rule run_helper_of [OF assms])
  have "fst (exec_helper net h w) \<noteq> Inl IndexError"
  proof (cases h)
    case (Sendget e' ps)
    with e show ?thesis
      by (simp add: sendget_Cons fst_response_json_not_index fst_checked_request_not_index)
  next
    case (Sendpost e' d)
    with e show ?thesis
      by (simp add: sendpost_Cons fst_returns_none_not_index fst_checked_request_not_index)
  next
    case (Senddelete e')
    with e show ?thesis
      by (simp add: senddelete_Cons fst_returns_none_not_index fst_checked_request_not_index)
  qed
  with e r show ?thesis by (simp add: normalise_endpoint_slash)
qed

text \<open>The endpoint built for one subscription of one customer.\<close>

theorem public_endpoints_start_with_slash_witness:
  "helper_of (Get_customer_subscription ''x.com'' ''P1'')
     = Some (Sendget ''/customers/x.com/subscriptions/P1'' [])
   \<and> ''/customers/x.com/subscriptions/P1'' \<noteq> []
   \<and> hd ''/customers/x.com/subscriptions/P1'' = CHR ''/''
   \<and> normalise_endpoint ''/customers/x.com/subscriptions/P1''
       = Inr ''/customers/x.com/subscriptions/P1''
   \<and> fst (run (respond_with \<lparr>status_code = 200, resp_headers = [], body_text = ''{}'', json_body = Some (PDict [])\<rparr>)
             (Get_customer_subscription ''x.com'' ''P1'')
             \<lparr>self = \<lparr>session = \<lparr>headers = []\<rparr>, url = ''https://api.cascadeportal.com''\<rparr>,
               wire = []\<rparr>) \<noteq> Inl IndexError"
proof -
  have h: "helper_of (Get_customer_subscription ''x.com'' ''P1'')
             = Some (Sendget ''/customers/x.com/subscriptions/P1'' [])"
    by simp
  note t = public_endpoints_start_with_slash
         [OF h,
          where net = "respond_with \<lparr>status_code = 200, resp_headers = [], body_text = ''{}'',
                                      json_body = Some (PDict [])\<rparr>"
            and w = "\<lparr>self = \<lparr>session = \<lparr>headers = []\<rparr>,
                              url = ''https://api.cascadeportal.com''\<rparr>,
                      wire = []\<rparr>"]
  from t have a: "''/customers/x.com/subscriptions/P1'' \<noteq> []
      \<and> hd ''/customers/x.com/subscriptions/P1'' = CHR ''/''
      \<and> normalise_endpoint ''/customers/x.com/subscriptions/P1''
          = Inr ''/customers/x.com/subscriptions/P1''"
    by (simp only: endpoint_of.simps) blast
  from t have b: "fst (run (respond_with \<lparr>status_code = 200, resp_headers = [], body_text = ''{}'',
                                          json_body = Some (PDict [])\<rparr>)
             (Get_customer_subscription ''x.com'' ''P1'')
             \<lparr>self = \<lparr>session = \<lparr>headers = []\<rparr>, url = ''https://api.cascadeportal.com''\<rparr>,
               wire = []\<rparr>) \<noteq> Inl IndexError"
    by blast
  from h a b show ?thesis
    by blast
qed

end
